theory Spec2Isabelle
  imports Complex_Main "HOL-Library.Word" "HOL-Library.AList" "HOL-Library.Multiset"
    "HOL-Library.Product_Lexorder"
begin

section \<open>JavaScript values used by the front end\<close>

text \<open>
  A JavaScript string is a sequence of 16-bit code units. Literals of the source are
  written \<open>js ''...''\<close>.
\<close>

type_synonym code_unit = "16 word"

type_synonym jsstring = "code_unit list"

definition js :: "string \<Rightarrow> jsstring" where
  "js s = map of_char s"

text \<open>
  A \<open>number\<close> that comes out of \<open>Number(string)\<close> may be \<open>NaN\<close> or infinite, so the numbers
  built from what the user types carry those cases. Numbers decoded from a JSON body are
  always finite; they are modelled as \<open>real\<close> (every double is a real number).
\<close>

datatype number = Num real | NaN | PosInfinity | NegInfinity

text \<open>
  What \<open>String.prototype.trim\<close> removes: the code units of ECMAScript's WhiteSpace and
  LineTerminator productions.
\<close>

definition is_whitespace :: "code_unit \<Rightarrow> bool" where
  "is_whitespace c =
     (c \<in> set [0x0009, 0x000A, 0x000B, 0x000C, 0x000D, 0x0020, 0x00A0, 0x1680,
                0x2028, 0x2029, 0x202F, 0x205F, 0x3000, 0xFEFF]
      \<or> (0x2000 \<le> c \<and> c \<le> 0x200A))"

definition trim :: "jsstring \<Rightarrow> jsstring" where
  "trim s = rev (dropWhile is_whitespace (rev (dropWhile is_whitespace s)))"

text \<open>\<open>s.split(sep)\<close> for a separator of one code unit: \<open>"".split(",")\<close> is \<open>[""]\<close>.\<close>

fun split_str :: "code_unit \<Rightarrow> jsstring \<Rightarrow> jsstring list" where
  "split_str sep [] = [[]]"
| "split_str sep (c # cs) =
     (if c = sep then [] # split_str sep cs
      else (case split_str sep cs of
              [] \<Rightarrow> [[c]]
            | w # ws \<Rightarrow> (c # w) # ws))"

definition comma :: code_unit where
  "comma = 0x002C"

text \<open>The decimal digits of a non-negative integer, as a template literal prints it.\<close>

fun decimal :: "nat \<Rightarrow> jsstring" where
  "decimal n =
     (if n < 10 then [of_nat (48 + n)]
      else decimal (n div 10) @ [of_nat (48 + n mod 10)])"

text \<open>
  A thrown value: an \<open>Error\<close> object with its \<open>name\<close> and \<open>message\<close>.
  \<open>new Error(m)\<close> is \<open>JsError (js ''Error'') m\<close>.
\<close>

datatype js_error = JsError (error_name: jsstring) (message: jsstring)

definition new_Error :: "jsstring \<Rightarrow> js_error" where
  "new_Error m = JsError (js ''Error'') m"

text \<open>\<open>String(e)\<close> for an Error object (\<open>Error.prototype.toString\<close>).\<close>

definition String_of_error :: "js_error \<Rightarrow> jsstring" where
  "String_of_error e =
     (if error_name e = [] then message e
      else if message e = [] then error_name e
      else error_name e @ js '': '' @ message e)"

section \<open>FrontEnd/lib/api.ts: the types\<close>

record RecommendationQuery =
  conference_series :: "jsstring option"
  year :: "number option"
  topics :: "jsstring list"
  years_back :: number

record ScoreBreakdown =
  topic_sim :: real
  semantic_score :: real
  pub_recency_score :: real
  pc_recency_score :: real
  impact_score :: real
  pagerank_score :: real
  experience_score :: real
  newcomer_score :: real

text \<open>
  The field \<open>id\<close> is named \<open>rid\<close> (\<open>id\<close> is the identity function of HOL), and the topics of
  a researcher \<open>r_topics\<close> (the query has \<open>topics\<close> too).
\<close>

record ResearcherShort =
  rid :: real
  full_name :: jsstring
  affiliation :: "jsstring option"
  country :: "jsstring option"
  citation_count :: "real option"
  h_index :: "real option"
  r_topics :: "jsstring list"

record RecommendationItem =
  researcher :: ResearcherShort
  score :: real
  score_breakdown :: ScoreBreakdown

record RecommendationResponse =
  query :: RecommendationQuery
  results :: "RecommendationItem list"

record PCHistoryItem =
  pc_conference_series :: jsstring
  pc_year :: real
  role :: jsstring

record PublicationItem =
  title :: jsstring
  pub_year :: "real option"
  venue :: "jsstring option"

text \<open>\<open>ResearcherDetail\<close> has the fields of \<open>ResearcherShort\<close> and three more.\<close>

record ResearcherDetail = ResearcherShort +
  pc_history :: "PCHistoryItem list"
  recent_publications :: "PublicationItem list"
  person_profile_url :: "jsstring option"

section \<open>FrontEnd/lib/api.ts: the request helper\<close>

text \<open>
  The second argument of \<open>fetch\<close>. An absent field is \<open>None\<close>; headers are an object, kept
  as an association list in property order.
\<close>

record RequestInit =
  http_method :: "jsstring option"
  body :: "jsstring option"
  headers :: "(jsstring \<times> jsstring) list option"

text \<open>
  The \<open>Response\<close> that \<open>fetch\<close> resolves to, as \<open>request\<close> reads it: \<open>res.ok\<close>,
  \<open>res.status\<close>, what \<open>res.text()\<close> resolves to, and the outcome of \<open>res.json()\<close>
  (a body that is not JSON rejects with a SyntaxError).
\<close>

record 'a Response =
  ok :: bool
  status :: nat
  body_text :: jsstring
  json :: "js_error + 'a"

text \<open>
  What the code takes from its platform: \<open>fetch\<close> (which rejects when the server cannot
  be reached), \<open>JSON.stringify\<close>, the conversions \<open>Number(string)\<close> and number to
  string, and the environment variable read by \<open>API_BASE\<close>.
\<close>

record 'a platform =
  fetch :: "jsstring \<Rightarrow> RequestInit \<Rightarrow> js_error + 'a Response"
  JSON_stringify :: "RecommendationQuery \<Rightarrow> jsstring"
  Number :: "jsstring \<Rightarrow> number"
  ToString :: "number \<Rightarrow> jsstring"
  NEXT_PUBLIC_API_BASE_URL :: "jsstring option"

definition API_BASE :: "'a platform \<Rightarrow> jsstring" where
  "API_BASE p =
     (case NEXT_PUBLIC_API_BASE_URL p of
        None \<Rightarrow> js ''http://localhost:8000''
      | Some u \<Rightarrow> if u = [] then js ''http://localhost:8000'' else u)"

text \<open>
  The object spread \<open>{ "Content-Type": "application/json", ...(init?.headers || {}) }\<close>:
  a later property replaces the value of an earlier one with the same key. The list keeps
  the properties in the order written; JavaScript lists a key that reads as an integer
  before the others, which the list does not do. No call in \<open>api.ts\<close> passes headers.
\<close>

definition spread_headers :: "(jsstring \<times> jsstring) list option \<Rightarrow> (jsstring \<times> jsstring) list" where
  "spread_headers h =
     fold (\<lambda>(k, v). AList.update k v) (case h of None \<Rightarrow> [] | Some hs \<Rightarrow> hs)
       [(js ''Content-Type'', js ''application/json'')]"

text \<open>The two arguments \<open>request\<close> gives to \<open>fetch\<close>.\<close>

definition request_url :: "'a platform \<Rightarrow> jsstring \<Rightarrow> jsstring" where
  "request_url p path = API_BASE p @ path"

definition request_init :: "RequestInit \<Rightarrow> RequestInit" where
  "request_init init = init\<lparr>headers := Some (spread_headers (headers init))\<rparr>"

text \<open>Lines 67 to 71: what \<open>request\<close> does with the response.\<close>

definition request_result :: "'a Response \<Rightarrow> js_error + 'a" where
  "request_result res =
     (if \<not> ok res
      then Inl (new_Error (js ''API '' @ decimal (status res) @ js '': '' @ body_text res))
      else json res)"

definition request :: "'a platform \<Rightarrow> jsstring \<Rightarrow> RequestInit \<Rightarrow> js_error + 'a" where
  "request p path init =
     (case fetch p (request_url p path) (request_init init) of
        Inl e \<Rightarrow> Inl e
      | Inr res \<Rightarrow> request_result res)"

definition recommend ::
  "RecommendationResponse platform \<Rightarrow> RecommendationQuery \<Rightarrow> js_error + RecommendationResponse" where
  "recommend p payload =
     request p (js ''/recommend'')
       \<lparr>http_method = Some (js ''POST''), body = Some (JSON_stringify p payload), headers = None\<rparr>"

definition getResearcher :: "ResearcherDetail platform \<Rightarrow> number \<Rightarrow> js_error + ResearcherDetail" where
  "getResearcher p i =
     request p (js ''/researcher/'' @ ToString p i)
       \<lparr>http_method = Some (js ''GET''), body = None, headers = None\<rparr>"

definition apiDocsUrl :: "'a platform \<Rightarrow> jsstring" where
  "apiDocsUrl p = API_BASE p @ js ''/docs''"

section \<open>FrontEnd/app/layout.tsx: the search page\<close>

definition clamp01 :: "real \<Rightarrow> real" where
  "clamp01 x = max 0 (min 1 x)"

text \<open>
  \<open>Progress\<close> draws a bar whose CSS width is \<open>v * 100\<close> percent; the model returns that
  number of percent (the product is exact here, a double rounds it).
\<close>

definition Progress :: "real \<Rightarrow> real" where
  "Progress x = (let v = clamp01 x in v * 100)"

text \<open>
  \<open>Number.prototype.toFixed(f)\<close> on a finite number, after ECMAScript: the sign, then the
  integer \<open>n\<close> nearest to \<open>x * 10^f\<close> (the larger one of two), printed with \<open>f\<close> digits
  after the point. From \<open>10^21\<close> on it is the platform's number to string conversion.
\<close>

definition toFixed :: "'a platform \<Rightarrow> nat \<Rightarrow> real \<Rightarrow> jsstring" where
  "toFixed p f x =
     (let s = (if x < 0 then js ''-'' else []);
          a = \<bar>x\<bar>
      in if 10 ^ 21 \<le> a then s @ ToString p (Num a)
         else
           let n = nat \<lfloor>a * 10 ^ f + 1 / 2\<rfloor>;
               m = decimal n;
               m' = (if length m \<le> f then replicate (f + 1 - length m) 0x0030 @ m else m);
               k = length m'
           in if f = 0 then s @ m
              else s @ take (k - f) m' @ js ''.'' @ drop (k - f) m')"

text \<open>One row of the score breakdown dialog: label, note, the printed value and the bar.\<close>

record breakdown_row =
  row_label :: jsstring
  row_note :: "jsstring option"
  row_value :: jsstring
  row_bar_percent :: real

definition rows :: "((ScoreBreakdown \<Rightarrow> real) \<times> jsstring \<times> jsstring option) list" where
  "rows =
     [(topic_sim, js ''Topic match'', None),
      (semantic_score, js ''Semantic (embeddings)'',
         Some (js ''If cosine is used, negatives may appear as 0 in bars.'')),
      (pub_recency_score, js ''Publication recency'', None),
      (pc_recency_score, js ''PC recency'', None),
      (impact_score, js ''Impact'', None),
      (pagerank_score, js ''PageRank'', None),
      (experience_score, js ''Experience'', None),
      (newcomer_score, js ''Newcomer'', None)]"

definition ScoreBreakdownView :: "'a platform \<Rightarrow> ScoreBreakdown \<Rightarrow> breakdown_row list" where
  "ScoreBreakdownView p b =
     map (\<lambda>(k, label, note).
            \<lparr>row_label = label, row_note = note,
             row_value = toFixed p 3 (k b), row_bar_percent = Progress (k b)\<rparr>)
         rows"

text \<open>
  The state of \<open>Home\<close>. The state variables \<open>year\<close> and \<open>topics\<close> hold the text of the
  form fields; they are named \<open>year_text\<close> and \<open>topics_text\<close> here, apart from the query's
  fields. Fields that the types of \<open>api.ts\<close> declare as arrays are lists, so the guards
  \<open>res.results || []\<close>, \<open>r.pc_history || []\<close> and the like leave them as they are (an
  array is always truthy).
\<close>

record Home_state =
  conference :: jsstring
  year_text :: jsstring
  yearsBack :: jsstring
  topics_text :: jsstring
  loading :: bool
  error :: "jsstring option"
  items :: "RecommendationItem list"
  openModal :: bool
  selected :: "RecommendationItem option"

definition initial_Home :: Home_state where
  "initial_Home =
     \<lparr>conference = [], year_text = [], yearsBack = js ''3'', topics_text = [],
      loading = False, error = None, items = [], openModal = False, selected = None\<rparr>"

text \<open>The payload \<open>run\<close> builds (lines 131 to 136). A string is truthy when it is not empty.\<close>

definition run_payload :: "'a platform \<Rightarrow> Home_state \<Rightarrow> RecommendationQuery" where
  "run_payload p s =
     \<lparr>conference_series =
        (if trim (conference s) \<noteq> [] then Some (trim (conference s)) else None),
      year = (if trim (year_text s) \<noteq> [] then Some (Number p (trim (year_text s))) else None),
      topics = filter (\<lambda>t. t \<noteq> []) (map trim (split_str comma (topics_text s))),
      years_back = (if trim (yearsBack s) \<noteq> [] then Number p (trim (yearsBack s)) else Num 3)\<rparr>"

text \<open>\<open>e?.message ? String(e.message) : String(e)\<close>\<close>

definition catch_text :: "js_error \<Rightarrow> jsstring" where
  "catch_text e = (if message e \<noteq> [] then message e else String_of_error e)"

text \<open>
  \<open>run\<close>, from the state it is called in to the state when its promise settles: the two
  updates before the request, then the \<open>try\<close>, \<open>catch\<close> and \<open>finally\<close> blocks.
\<close>

definition run :: "RecommendationResponse platform \<Rightarrow> Home_state \<Rightarrow> Home_state" where
  "run p s =
     (let s1 = s\<lparr>loading := True, error := None\<rparr>;
          payload = run_payload p s;
          s2 = (case recommend p payload of
                  Inr res \<Rightarrow> s1\<lparr>items := results res\<rparr>
                | Inl e \<Rightarrow> s1\<lparr>error := Some (catch_text e), items := []\<rparr>)
      in s2\<lparr>loading := False\<rparr>)"

section \<open>FrontEnd/researcher(id)/page.tsx: the researcher page\<close>

record ResearcherPage_state =
  rp_loading :: bool
  rp_error :: "jsstring option"
  rp_r :: "ResearcherDetail option"

definition initial_ResearcherPage :: ResearcherPage_state where
  "initial_ResearcherPage = \<lparr>rp_loading = True, rp_error = None, rp_r = None\<rparr>"

text \<open>
  The effect of lines 21 to 38, from the state it starts in to the state when its promise
  settles; \<open>mounted\<close> is the flag as it stands then.
\<close>

definition load_researcher ::
  "ResearcherDetail platform \<Rightarrow> jsstring \<Rightarrow> bool \<Rightarrow> ResearcherPage_state \<Rightarrow> ResearcherPage_state" where
  "load_researcher p params_id mounted s =
     (let i = Number p params_id;
          s1 = s\<lparr>rp_loading := True, rp_error := None\<rparr>;
          s2 = (case getResearcher p i of
                  Inr data \<Rightarrow> if mounted then s1\<lparr>rp_r := Some data\<rparr> else s1
                | Inl e \<Rightarrow> if mounted then s1\<lparr>rp_error := Some (catch_text e)\<rparr> else s1)
      in if mounted then s2\<lparr>rp_loading := False\<rparr> else s2)"

text \<open>\<open>x || d\<close> on an optional string, and \<open>x ?? d\<close> on an optional number.\<close>

definition or_else :: "jsstring option \<Rightarrow> jsstring \<Rightarrow> jsstring" where
  "or_else x d = (case x of None \<Rightarrow> d | Some s \<Rightarrow> if s = [] then d else s)"

datatype cell = NumberCell real | TextCell jsstring

definition nullish_else :: "real option \<Rightarrow> jsstring \<Rightarrow> cell" where
  "nullish_else x d = (case x of None \<Rightarrow> TextCell d | Some n \<Rightarrow> NumberCell n)"

text \<open>What the page shows of a loaded researcher (lines 57 to 112).\<close>

record detail_view =
  v_full_name :: jsstring
  v_affiliation :: jsstring
  v_country :: jsstring
  v_topics :: "jsstring list"
  v_citations :: cell
  v_h_index :: cell
  v_profile_href :: "jsstring option"
  v_pc_rows :: "(jsstring \<times> real \<times> jsstring) list"
  v_no_pc_history :: bool
  v_pub_rows :: "(jsstring \<times> jsstring \<times> cell) list"
  v_no_publications :: bool

datatype page_view = Loading | ErrorBox jsstring | NotFound | Detail detail_view

definition pc_row :: "PCHistoryItem \<Rightarrow> jsstring \<times> real \<times> jsstring" where
  "pc_row m = (pc_conference_series m, pc_year m, role m)"

definition pub_row :: "PublicationItem \<Rightarrow> jsstring \<times> jsstring \<times> cell" where
  "pub_row pb = (title pb, or_else (venue pb) (js ''Unknown venue''), nullish_else (pub_year pb) (js ''?''))"

definition render_detail :: "ResearcherDetail \<Rightarrow> detail_view" where
  "render_detail d =
     \<lparr>v_full_name = full_name d,
      v_affiliation = or_else (affiliation d) (js ''Unknown affiliation''),
      v_country = or_else (country d) (js ''Unknown country''),
      v_topics = r_topics d,
      v_citations = nullish_else (citation_count d) (js ''-''),
      v_h_index = nullish_else (h_index d) (js ''-''),
      v_profile_href =
        (case person_profile_url d of None \<Rightarrow> None | Some u \<Rightarrow> if u = [] then None else Some u),
      v_pc_rows = map pc_row (take 20 (pc_history d)),
      v_no_pc_history = (length (pc_history d) = 0),
      v_pub_rows = map pub_row (recent_publications d),
      v_no_publications = (length (recent_publications d) = 0)\<rparr>"

definition ResearcherPage :: "ResearcherPage_state \<Rightarrow> page_view" where
  "ResearcherPage s =
     (if rp_loading s then Loading
      else case rp_error s of
        Some e \<Rightarrow>
          if e \<noteq> [] then ErrorBox e
          else (case rp_r s of None \<Rightarrow> NotFound | Some d \<Rightarrow> Detail (render_detail d))
      | None \<Rightarrow> (case rp_r s of None \<Rightarrow> NotFound | Some d \<Rightarrow> Detail (render_detail d)))"

section \<open>The ranking engine behind \<open>/recommend\<close>\<close>

text \<open>
  The sources hold the front end only: the engine that answers \<open>POST /recommend\<close> is not
  among them. The definitions of this section follow sections 4.3 to 4.6, 5 and 7 of the
  specification. What the specification leaves open (the selection policy and the curves
  of the eight signals) is a parameter.
\<close>

text \<open>
  Modelled from the spec: the weight vector of the Score Aggregator (section 4.5), "a
  fixed, documented weight vector"; the aggregator's code is missing from the sources.
\<close>

record weights =
  w_topic_sim :: real
  w_semantic_score :: real
  w_pub_recency_score :: real
  w_pc_recency_score :: real
  w_impact_score :: real
  w_pagerank_score :: real
  w_experience_score :: real
  w_newcomer_score :: real

text \<open>
  Modelled from the spec: \<open>aggregate(breakdown) -> total\<close> of the Score Aggregator
  (section 4.5), missing from the sources: the eight components combined with the fixed
  weights.
\<close>

definition aggregate :: "weights \<Rightarrow> ScoreBreakdown \<Rightarrow> real" where
  "aggregate w b =
     w_topic_sim w * topic_sim b
     + w_semantic_score w * semantic_score b
     + w_pub_recency_score w * pub_recency_score b
     + w_pc_recency_score w * pc_recency_score b
     + w_impact_score w * impact_score b
     + w_pagerank_score w * pagerank_score b
     + w_experience_score w * experience_score b
     + w_newcomer_score w * newcomer_score b"

text \<open>
  Modelled from the spec: the failure kinds of section 7 that end a request, missing from
  the sources: an input error with its description, and an unreachable store adapter.
\<close>

datatype failure = InputError string | CollaboratorUnavailable

text \<open>
  Modelled from the spec: the check of a query (section 7, input errors; section 3,
  \<open>years_back\<close> is a positive integer), missing from the sources.
\<close>

definition valid_years_back :: "number \<Rightarrow> bool" where
  "valid_years_back n =
     (case n of Num x \<Rightarrow> 0 < x \<and> x = of_int \<lfloor>x\<rfloor> | NaN \<Rightarrow> False
      | PosInfinity \<Rightarrow> False | NegInfinity \<Rightarrow> False)"

text \<open>
  Modelled from the spec: what section 7 calls a negative \<open>years_back\<close>; the engine's
  check is missing from the sources.
\<close>

definition is_negative :: "number \<Rightarrow> bool" where
  "is_negative n =
     (case n of Num x \<Rightarrow> x < 0 | NaN \<Rightarrow> False | PosInfinity \<Rightarrow> False | NegInfinity \<Rightarrow> True)"

text \<open>
  Modelled from the spec: the Candidate Selector (section 4.3), missing from the sources,
  as the engine sees it: the candidates of a query, or a failure when the store adapter
  cannot be reached.
\<close>

type_synonym selector = "RecommendationQuery \<Rightarrow> failure + ResearcherShort list"

text \<open>
  Modelled from the spec: the Signal Computers (section 4.4), missing from the sources, as
  the engine sees them: the breakdown of a candidate, from the query and the candidate
  population.
\<close>

type_synonym signal_computers =
  "RecommendationQuery \<Rightarrow> ResearcherShort list \<Rightarrow> ResearcherShort \<Rightarrow> ScoreBreakdown"

text \<open>
  Modelled from the spec: one scored candidate (sections 4.4 and 4.5), code missing from
  the sources: the breakdown of the signal computers, verbatim, beside its aggregate.
\<close>

definition score_candidate ::
  "weights \<Rightarrow> signal_computers \<Rightarrow> RecommendationQuery \<Rightarrow> ResearcherShort list \<Rightarrow> ResearcherShort
     \<Rightarrow> RecommendationItem" where
  "score_candidate w sig q population c =
     (let b = sig q population c
      in \<lparr>researcher = c, score = aggregate w b, score_breakdown = b\<rparr>)"

text \<open>
  Modelled from the spec: the order of the Ranking Service (section 4.6), code missing
  from the sources: total score descending, ties by researcher identifier ascending.
\<close>

definition rank_key :: "RecommendationItem \<Rightarrow> real \<times> real" where
  "rank_key it = (- score it, rid (researcher it))"

text \<open>
  Modelled from the spec: the sort of the Ranking Service (section 4.6), code missing from
  the sources: the items in ascending order of \<open>rank_key\<close>, pairs compared
  lexicographically.
\<close>

definition rank_items :: "RecommendationItem list \<Rightarrow> RecommendationItem list" where
  "rank_items xs = sort_key rank_key xs"

text \<open>
  Modelled from the spec: the descriptive failure of a rejected query (section 7), code
  missing from the sources.
\<close>

definition rejection :: failure where
  "rejection = InputError ''years_back must be a positive integer''"

text \<open>
  Modelled from the spec: the Ranking Service (section 4.6) with the input check of
  section 7, code missing from the sources. A malformed query is rejected first; then the
  candidates are selected, scored, aggregated and sorted.
\<close>

definition ranking_service ::
  "weights \<Rightarrow> selector \<Rightarrow> signal_computers \<Rightarrow> RecommendationQuery
     \<Rightarrow> failure + RecommendationResponse" where
  "ranking_service w sel sig q =
     (if \<not> valid_years_back (years_back q) then Inl rejection
      else case sel q of
        Inl f \<Rightarrow> Inl f
      | Inr cands \<Rightarrow>
          Inr \<lparr>query = q, results = rank_items (map (score_candidate w sig q cands) cands)\<rparr>)"

text \<open>
  Modelled from the spec: the runs of the Ranking Service under the resource model of
  section 5, code missing from the sources. Candidates are scored in parallel and
  collected before sorting, so a run sorts the scored candidates in whatever order
  \<open>collected\<close> they arrived.
\<close>

inductive ranking_run ::
  "weights \<Rightarrow> selector \<Rightarrow> signal_computers \<Rightarrow> RecommendationQuery
     \<Rightarrow> failure + RecommendationResponse \<Rightarrow> bool" where
  rejected: "\<not> valid_years_back (years_back q) \<Longrightarrow> ranking_run w sel sig q (Inl rejection)"
| unavailable:
    "valid_years_back (years_back q) \<Longrightarrow> sel q = Inl f \<Longrightarrow> ranking_run w sel sig q (Inl f)"
| ranked:
    "valid_years_back (years_back q) \<Longrightarrow> sel q = Inr cands \<Longrightarrow> mset collected = mset cands \<Longrightarrow>
     ranking_run w sel sig q
       (Inr \<lparr>query = q, results = rank_items (map (score_candidate w sig q cands) collected)\<rparr>)"





section \<open>Sample data\<close>

text \<open>
  Concrete inputs on which the theorems below are evaluated. \<open>xs.join(sep)\<close> writes a list
  of topics as the text of the topics field.
\<close>

fun join_str :: "code_unit \<Rightarrow> jsstring list \<Rightarrow> jsstring" where
  "join_str sep [] = []"
| "join_str sep [t] = t"
| "join_str sep (t # u # us) = t @ sep # join_str sep (u # us)"

text \<open>
  A platform for the samples. Its conversions are right on the inputs the samples use:
  \<open>sample_Number\<close> is a table of four literals, \<open>sample_ToString\<close> prints integers below
  \<open>10^21\<close>, and \<open>JSON.stringify\<close> is a constant.
\<close>

definition sample_Number :: "jsstring \<Rightarrow> number" where
  "sample_Number s =
     (if s = js ''3'' then Num 3
      else if s = js ''-5'' then Num (- 5)
      else if s = js ''7'' then Num 7
      else if s = js ''2026'' then Num 2026
      else NaN)"

definition sample_ToString :: "number \<Rightarrow> jsstring" where
  "sample_ToString n =
     (case n of
        Num x \<Rightarrow> if x < 0 then js ''-'' @ decimal (nat \<lfloor>- x\<rfloor>) else decimal (nat \<lfloor>x\<rfloor>)
      | NaN \<Rightarrow> js ''NaN''
      | PosInfinity \<Rightarrow> js ''Infinity''
      | NegInfinity \<Rightarrow> js ''-Infinity'')"

definition sample_platform ::
  "(jsstring \<Rightarrow> RequestInit \<Rightarrow> js_error + 'a Response) \<Rightarrow> 'a platform" where
  "sample_platform f =
     \<lparr>fetch = f, JSON_stringify = (\<lambda>q. js ''{}''), Number = sample_Number,
      ToString = sample_ToString, NEXT_PUBLIC_API_BASE_URL = None\<rparr>"

text \<open>Three servers: one answers every request with a JSON value, one refuses with status
  503, one cannot be reached.\<close>

definition answering :: "'a \<Rightarrow> jsstring \<Rightarrow> RequestInit \<Rightarrow> js_error + 'a Response" where
  "answering v url init = Inr \<lparr>ok = True, status = 200, body_text = js ''{}'', json = Inr v\<rparr>"

definition refusing :: "jsstring \<Rightarrow> RequestInit \<Rightarrow> js_error + 'a Response" where
  "refusing url init =
     Inr \<lparr>ok = False, status = 503, body_text = js ''Service Unavailable'',
          json = Inl (JsError (js ''SyntaxError'') (js ''Unexpected token S in JSON''))\<rparr>"

definition unreachable :: "jsstring \<Rightarrow> RequestInit \<Rightarrow> js_error + 'a Response" where
  "unreachable url init = Inl (JsError (js ''TypeError'') (js ''Failed to fetch''))"

text \<open>Two researchers with the same breakdown, so that their total scores tie.\<close>

definition alice :: ResearcherShort where
  "alice =
     \<lparr>rid = 1, full_name = js ''Alice'', affiliation = None, country = None,
      citation_count = Some 500, h_index = None, r_topics = [js ''testing'']\<rparr>"

definition bob :: ResearcherShort where
  "bob =
     \<lparr>rid = 2, full_name = js ''Bob'', affiliation = None, country = None,
      citation_count = None, h_index = None, r_topics = []\<rparr>"

definition sample_weights :: weights where
  "sample_weights =
     \<lparr>w_topic_sim = 3, w_semantic_score = 2, w_pub_recency_score = 1, w_pc_recency_score = 1,
      w_impact_score = 1, w_pagerank_score = 1, w_experience_score = 1, w_newcomer_score = 1\<rparr>"

definition sample_breakdown :: ScoreBreakdown where
  "sample_breakdown =
     \<lparr>topic_sim = 1, semantic_score = - (1 / 2), pub_recency_score = 1 / 2, pc_recency_score = 0,
      impact_score = 1, pagerank_score = 0, experience_score = 0, newcomer_score = 0\<rparr>"

definition sample_signals :: signal_computers where
  "sample_signals q population c = sample_breakdown"

definition sample_selector :: selector where
  "sample_selector q = Inr [alice, bob]"

definition sample_query :: RecommendationQuery where
  "sample_query =
     \<lparr>conference_series = Some (js ''ICSE''), year = Some (Num 2026),
      topics = [js ''testing''], years_back = Num 3\<rparr>"

definition sample_item :: "ResearcherShort \<Rightarrow> RecommendationItem" where
  "sample_item c = \<lparr>researcher = c, score = 7 / 2, score_breakdown = sample_breakdown\<rparr>"

definition sample_response :: RecommendationResponse where
  "sample_response = \<lparr>query = sample_query, results = [sample_item alice, sample_item bob]\<rparr>"






text \<open>A researcher with 21 committee memberships, and one with two.\<close>

definition membership :: "nat \<Rightarrow> PCHistoryItem" where
  "membership k =
     \<lparr>pc_conference_series = js ''ICSE'', pc_year = 2000 + real k, role = js ''PC member''\<rparr>"

definition sample_publication :: PublicationItem where
  "sample_publication = \<lparr>title = js ''On Testing'', pub_year = Some 2024, venue = None\<rparr>"

definition detail_with :: "nat \<Rightarrow> ResearcherDetail" where
  "detail_with n =
     \<lparr>rid = 7, full_name = js ''Carol'', affiliation = None, country = Some (js ''NL''),
      citation_count = Some 500, h_index = None, r_topics = [js ''testing''],
      pc_history = map membership [0..<n],
      recent_publications = [sample_publication],
      person_profile_url = Some (js ''https://example.org/carol'')\<rparr>"

section \<open>Lemmas on strings\<close>

lemma split_str_not_Nil: "split_str sep s \<noteq> []"
  by (induction s) (auto split: list.splits)

lemma split_str_no_sep: "sep \<notin> set t \<Longrightarrow> split_str sep t = [t]"
  by (induction t) auto

lemma split_str_append: "sep \<notin> set t \<Longrightarrow> split_str sep (t @ sep # rest) = t # split_str sep rest"
  by (induction t) auto

lemma split_pieces_no_sep: "w \<in> set (split_str sep s) \<Longrightarrow> sep \<notin> set w"
proof (induction s arbitrary: w)
  case Nil
  then show ?case by simp
next
  case (Cons c cs)
  show ?case
  proof (cases "c = sep")
    case True
    with Cons show ?thesis by auto
  next
    case False
    obtain v vs where v: "split_str sep cs = v # vs"
      using split_str_not_Nil[of sep cs] by (cases "split_str sep cs") auto
    with Cons.prems False have "w = c # v \<or> w \<in> set vs" by auto
    then show ?thesis
    proof
      assume "w = c # v"
      moreover have "sep \<notin> set v" using Cons.IH[of v] v by simp
      ultimately show ?thesis using False by auto
    next
      assume "w \<in> set vs"
      then show ?thesis using Cons.IH[of w] v by simp
    qed
  qed
qed

lemma split_join:
  "ts \<noteq> [] \<Longrightarrow> \<forall>t \<in> set ts. sep \<notin> set t \<Longrightarrow> split_str sep (join_str sep ts) = ts"
proof (induction sep ts rule: join_str.induct)
  case (1 sep)
  then show ?case by simp
next
  case (2 sep t)
  then show ?case by (simp add: split_str_no_sep)
next
  case (3 sep t u us)
  then show ?case by (simp add: split_str_append)
qed

lemma trim_subset: "set (trim w) \<subseteq> set w"
proof -
  have "set (trim w) \<subseteq> set (dropWhile is_whitespace w)"
    unfolding trim_def using set_dropWhileD[of _ is_whitespace "rev (dropWhile is_whitespace w)"] by auto
  also have "\<dots> \<subseteq> set w" using set_dropWhileD[of _ is_whitespace w] by auto
  finally show ?thesis .
qed

lemma trim_last: "trim w \<noteq> [] \<Longrightarrow> \<not> is_whitespace (last (trim w))"
  unfolding trim_def by (simp add: last_rev hd_dropWhile)

lemma last_dropWhile: "dropWhile P xs \<noteq> [] \<Longrightarrow> last (dropWhile P xs) = last xs"
  by (induction xs) (auto split: if_splits)

lemma trim_hd: "trim w \<noteq> [] \<Longrightarrow> \<not> is_whitespace (hd (trim w))"
proof -
  assume ne: "trim w \<noteq> []"
  let ?u = "dropWhile is_whitespace w"
  from ne have d: "dropWhile is_whitespace (rev ?u) \<noteq> []" by (simp add: trim_def)
  have u: "?u \<noteq> []"
  proof
    assume "?u = []"
    with d show False by simp
  qed
  have "hd (trim w) = last (dropWhile is_whitespace (rev ?u))"
    using d by (simp add: trim_def hd_rev)
  also have "\<dots> = last (rev ?u)" using d by (rule last_dropWhile)
  also have "\<dots> = hd ?u" using u by (simp add: last_rev)
  finally show ?thesis using u by (simp add: hd_dropWhile)
qed

lemma trim_id: "t \<noteq> [] \<Longrightarrow> \<not> is_whitespace (hd t) \<Longrightarrow> \<not> is_whitespace (last t) \<Longrightarrow> trim t = t"
proof -
  assume t: "t \<noteq> []" and h: "\<not> is_whitespace (hd t)" and l: "\<not> is_whitespace (last t)"
  from t h have a: "dropWhile is_whitespace t = t" by (cases t) auto
  from t l have "dropWhile is_whitespace (rev t) = rev t" by (cases "rev t") (auto simp: hd_rev[symmetric] dest: arg_cong[where f=hd])
  with a show ?thesis by (simp add: trim_def)
qed

lemma join_str_push: "join_str sep ((c # v) # vs) = c # join_str sep (v # vs)"
  by (cases vs) simp_all

lemma join_split: "join_str sep (split_str sep s) = s"
proof (induction s)
  case Nil
  then show ?case by simp
next
  case (Cons c cs)
  obtain v vs where v: "split_str sep cs = v # vs"
    using split_str_not_Nil[of sep cs] by (cases "split_str sep cs") auto
  show ?case
  proof (cases "c = sep")
    case True
    then show ?thesis using Cons.IH v by simp
  next
    case False
    then show ?thesis using Cons.IH v by (simp add: join_str_push)
  qed
qed

lemma trim_decomposition:
  "\<exists>a b. w = a @ trim w @ b \<and> (\<forall>c \<in> set a. is_whitespace c) \<and> (\<forall>c \<in> set b. is_whitespace c)"
proof -
  let ?P = is_whitespace
  let ?u = "dropWhile ?P w"
  let ?a = "takeWhile ?P w"
  let ?b = "rev (takeWhile ?P (rev ?u))"
  have "rev (takeWhile ?P (rev ?u) @ dropWhile ?P (rev ?u)) = rev (rev ?u)"
    by (simp only: takeWhile_dropWhile_id)
  then have "rev (dropWhile ?P (rev ?u)) @ ?b = ?u"
    by (simp only: rev_append rev_rev_ident)
  then have u: "?u = trim w @ ?b" by (simp only: trim_def)
  have "w = ?a @ ?u" by simp
  with u have "w = ?a @ trim w @ ?b" by simp
  moreover have "\<forall>c \<in> set ?a. ?P c" by (auto dest: set_takeWhileD)
  moreover have "\<forall>c \<in> set ?b. ?P c" by (auto dest: set_takeWhileD)
  ultimately show ?thesis by blast
qed

section \<open>Lemmas on the ranking engine\<close>

lemma set_rank_items: "set (rank_items xs) = set xs"
  by (simp add: rank_items_def)

lemma scored_item:
  "score (score_candidate w sig q pop c) = aggregate w (score_breakdown (score_candidate w sig q pop c))"
  by (simp add: score_candidate_def Let_def)





lemma service_is_run: "ranking_run w sel sig q (ranking_service w sel sig q)"
proof (cases "valid_years_back (years_back q)")
  case False
  then show ?thesis by (simp add: ranking_service_def rejected)
next
  case True
  show ?thesis
  proof (cases "sel q")
    case (Inl f)
    with True show ?thesis by (simp add: ranking_service_def unavailable)
  next
    case (Inr cands)
    with True have "ranking_run w sel sig q
       (Inr \<lparr>query = q, results = rank_items (map (score_candidate w sig q cands) cands)\<rparr>)"
      by (intro ranked) simp_all
    with True Inr show ?thesis by (simp add: ranking_service_def)
  qed
qed

lemma negative_invalid: "is_negative n \<Longrightarrow> \<not> valid_years_back n"
  by (cases n) (auto simp: is_negative_def valid_years_back_def)

lemma sample_scored:
  "map (score_candidate sample_weights sample_signals sample_query [alice, bob]) [alice, bob]
     = [sample_item alice, sample_item bob]"
  by (simp add: score_candidate_def sample_signals_def sample_item_def aggregate_def
      sample_weights_def sample_breakdown_def Let_def)

lemma sample_ranked:
  "rank_items [sample_item alice, sample_item bob] = [sample_item alice, sample_item bob]"
  by (simp add: rank_items_def rank_key_def sample_item_def alice_def bob_def)

lemma sample_run:
  "ranking_run sample_weights sample_selector sample_signals sample_query (Inr sample_response)"
proof -
  have v: "valid_years_back (years_back sample_query)"
    by (simp add: sample_query_def valid_years_back_def)
  have s: "sample_selector sample_query = Inr [alice, bob]"
    by (simp add: sample_selector_def)
  have "ranking_run sample_weights sample_selector sample_signals sample_query
     (Inr \<lparr>query = sample_query,
           results = rank_items (map (score_candidate sample_weights sample_signals sample_query
             [alice, bob]) [alice, bob])\<rparr>)"
    using v s by (rule ranked) simp
  then show ?thesis unfolding sample_scored sample_ranked sample_response_def .
qed






section \<open>Lemmas on the researcher page\<close>

lemma getResearcher_ok:
  assumes "fetch p (request_url p (js ''/researcher/'' @ ToString p i))
             (request_init \<lparr>http_method = Some (js ''GET''), body = None, headers = None\<rparr>) = Inr res"
    and "ok res" and "json res = Inr d"
  shows "getResearcher p i = Inr d"
  using assms by (simp add: getResearcher_def request_def request_result_def)

lemma inj_pc_row: "inj pc_row"
  by (rule injI) (simp add: pc_row_def)

lemma js_nonempty: "js ''https://example.org/carol'' \<noteq> []"
  by (simp add: js_def)

section \<open>The claims\<close>

text \<open>
  Claim C1 (explainability round-trip). In every run of the ranking service that returns
  a response, the total score of each returned result is the recombination of the eight
  fields of that result's own breakdown with the weight vector: \<open>aggregate w\<close> of the
  breakdown.
\<close>

theorem score_is_recombination:
  assumes "ranking_run w sel sig q (Inr resp)"
  shows "\<forall>it \<in> set (results resp). score it = aggregate w (score_breakdown it)"
  using assms
proof (cases rule: ranking_run.cases)
  case (ranked cands collected)
  then show ?thesis
    by (auto simp: set_rank_items scored_item)
qed

text \<open>
  The theorem at the sample query: the run returns Alice and Bob, each with the total
  \<open>3 * 1 + 2 * (- 1/2) + 1/2 + 1 = 7/2\<close> of the sample breakdown.
\<close>

theorem score_is_recombination_witness:
  "ranking_run sample_weights sample_selector sample_signals sample_query (Inr sample_response)
   \<and> results sample_response = [sample_item alice, sample_item bob]
   \<and> score (sample_item alice) = aggregate sample_weights (score_breakdown (sample_item alice))
   \<and> score (sample_item bob) = aggregate sample_weights (score_breakdown (sample_item bob))
   \<and> score (sample_item alice) = 7 / 2"
  using sample_run score_is_recombination[OF sample_run]
  by (simp add: sample_response_def sample_item_def)




text \<open>
  Claim C3, as the code has it. For every text of the topics field, the topics sent are
  the pieces of the text between commas, in the order typed, each trimmed of the
  whitespace around it, the empty ones dropped. The pieces are fixed by the text: they are
  comma-free and, joined by commas, give the text back. The trimmed piece is fixed by the
  piece: it is the piece without a whitespace prefix and a whitespace suffix, and when it
  is not empty it neither starts nor ends with whitespace. So every topic sent is
  non-empty and holds no comma and no whitespace at either end; and a list of such topics
  typed with commas between them is sent as it is: same order, same letter case,
  duplicates included.
\<close>

theorem sent_topics:
  "topics (run_payload p s)
     = filter (\<lambda>t. t \<noteq> []) (map trim (split_str comma (topics_text s)))
   \<and> split_str comma (topics_text s) \<noteq> []
   \<and> join_str comma (split_str comma (topics_text s)) = topics_text s
   \<and> (\<forall>w \<in> set (split_str comma (topics_text s)). comma \<notin> set w)
   \<and> (\<forall>w. \<exists>a b. w = a @ trim w @ b
          \<and> (\<forall>c \<in> set a. is_whitespace c) \<and> (\<forall>c \<in> set b. is_whitespace c))
   \<and> (\<forall>w. trim w \<noteq> [] \<longrightarrow> \<not> is_whitespace (hd (trim w)) \<and> \<not> is_whitespace (last (trim w)))
   \<and> (\<forall>t \<in> set (topics (run_payload p s)).
       t \<noteq> [] \<and> comma \<notin> set t \<and> \<not> is_whitespace (hd t) \<and> \<not> is_whitespace (last t))
   \<and> ((\<forall>t \<in> set ts. t \<noteq> [] \<and> comma \<notin> set t \<and> \<not> is_whitespace (hd t) \<and> \<not> is_whitespace (last t))
        \<and> topics_text s = join_str comma ts
      \<longrightarrow> topics (run_payload p s) = ts)"
proof -
  have part0: "topics (run_payload p s)
     = filter (\<lambda>t. t \<noteq> []) (map trim (split_str comma (topics_text s)))"
    by (simp add: run_payload_def)
  have pieces: "\<forall>w \<in> set (split_str comma (topics_text s)). comma \<notin> set w"
    using split_pieces_no_sep by blast
  have tr1: "\<forall>w. \<exists>a b. w = a @ trim w @ b
          \<and> (\<forall>c \<in> set a. is_whitespace c) \<and> (\<forall>c \<in> set b. is_whitespace c)"
    using trim_decomposition by blast
  have tr2: "\<forall>w. trim w \<noteq> [] \<longrightarrow> \<not> is_whitespace (hd (trim w)) \<and> \<not> is_whitespace (last (trim w))"
    using trim_hd trim_last by blast
  have part1: "t \<noteq> [] \<and> comma \<notin> set t \<and> \<not> is_whitespace (hd t) \<and> \<not> is_whitespace (last t)"
    if "t \<in> set (topics (run_payload p s))" for t
  proof -
    from that obtain w where w: "w \<in> set (split_str comma (topics_text s))"
      and t: "t = trim w" and ne: "t \<noteq> []"
      by (auto simp: run_payload_def)
    have "comma \<notin> set w" using w by (rule split_pieces_no_sep)
    then have "comma \<notin> set t" using trim_subset[of w] t by auto
    then show ?thesis using ne t trim_hd[of w] trim_last[of w] by simp
  qed
  have part2: "topics (run_payload p s) = ts"
    if a: "\<forall>t \<in> set ts. t \<noteq> [] \<and> comma \<notin> set t \<and> \<not> is_whitespace (hd t) \<and> \<not> is_whitespace (last t)"
      and j: "topics_text s = join_str comma ts"
  proof -
    have tr: "map trim ts = ts" using a by (simp add: map_idI trim_id)
    have ne: "filter (\<lambda>t. t \<noteq> []) ts = ts" using a by (simp add: filter_id_conv)
    show ?thesis
    proof (cases "ts = []")
      case True
      with j show ?thesis by (simp add: run_payload_def trim_def)
    next
      case False
      with a j have "split_str comma (topics_text s) = ts" by (simp add: split_join)
      then show ?thesis using tr ne by (simp add: run_payload_def)
    qed
  qed
  have p1: "\<forall>t \<in> set (topics (run_payload p s)).
       t \<noteq> [] \<and> comma \<notin> set t \<and> \<not> is_whitespace (hd t) \<and> \<not> is_whitespace (last t)"
    using part1 by blast
  have p2: "(\<forall>t \<in> set ts. t \<noteq> [] \<and> comma \<notin> set t \<and> \<not> is_whitespace (hd t) \<and> \<not> is_whitespace (last t))
        \<and> topics_text s = join_str comma ts
      \<longrightarrow> topics (run_payload p s) = ts"
    using part2 by blast
  show ?thesis
    using part0 split_str_not_Nil[of comma "topics_text s"] join_split[of comma "topics_text s"]
      pieces tr1 tr2 p1 p2
    by (intro conjI)
qed

text \<open>
  The theorem at the fields \<open>testing, program analysis, security\<close> (pieces that need
  trimming) and \<open>testing,Program Analysis,testing\<close> (an upper-case topic and a duplicate).
\<close>

theorem sent_topics_witness:
  "topics (run_payload (sample_platform unreachable :: unit platform)
      (initial_Home\<lparr>topics_text := js ''testing, program analysis, security''\<rparr>))
     = [js ''testing'', js ''program analysis'', js ''security'']
   \<and> split_str comma (js ''testing, program analysis, security'')
     = [js ''testing'', js '' program analysis'', js '' security'']
   \<and> topics (run_payload (sample_platform unreachable :: unit platform)
      (initial_Home\<lparr>topics_text := js ''testing,Program Analysis,testing''\<rparr>))
     = [js ''testing'', js ''Program Analysis'', js ''testing'']"
proof -
  let ?p = "sample_platform unreachable :: unit platform"
  let ?s = "initial_Home\<lparr>topics_text := js ''testing,Program Analysis,testing''\<rparr>"
  let ?s' = "initial_Home\<lparr>topics_text := js ''testing, program analysis, security''\<rparr>"
  let ?ts = "[js ''testing'', js ''Program Analysis'', js ''testing'']"
  have a: "\<forall>t \<in> set ?ts. t \<noteq> [] \<and> comma \<notin> set t \<and> \<not> is_whitespace (hd t) \<and> \<not> is_whitespace (last t)"
    by (simp add: js_def comma_def is_whitespace_def)
  have j: "topics_text ?s = join_str comma ?ts"
    by (simp add: js_def comma_def)
  have sp: "split_str comma (js ''testing, program analysis, security'')
     = [js ''testing'', js '' program analysis'', js '' security'']"
    by (simp add: js_def comma_def)
  have tx: "topics_text ?s' = js ''testing, program analysis, security''" by simp
  have t1: "trim (js ''testing'') = js ''testing''"
    "trim (js '' program analysis'') = js ''program analysis''"
    "trim (js '' security'') = js ''security''"
    by (simp_all add: trim_def is_whitespace_def js_def)
  have ne: "js ''testing'' \<noteq> []" "js ''program analysis'' \<noteq> []" "js ''security'' \<noteq> []"
    by (simp_all add: js_def)
  have one: "topics (run_payload ?p ?s') = [js ''testing'', js ''program analysis'', js ''security'']"
    using sent_topics[of ?p ?s' "[]"] sp t1 ne unfolding tx by simp
  have two: "topics (run_payload ?p ?s) = ?ts"
    using sent_topics[of ?p ?s ?ts] a j by blast
  show ?thesis using one two sp by simp
qed

text \<open>
  Claim C3 as stated fails: the field \<open> AI, ai ,,AI\<close> sends \<open>AI\<close>, \<open>ai\<close>, \<open>AI\<close>. The
  upper case is kept and \<open>AI\<close> is sent twice.
\<close>

theorem topics_not_normalised:
  "topics (run_payload (sample_platform unreachable :: unit platform)
      (initial_Home\<lparr>topics_text := js '' AI, ai ,,AI''\<rparr>)) = [js ''AI'', js ''ai'', js ''AI'']
   \<and> \<not> distinct (topics (run_payload (sample_platform unreachable :: unit platform)
      (initial_Home\<lparr>topics_text := js '' AI, ai ,,AI''\<rparr>)))"
  by (simp add: run_payload_def trim_def is_whitespace_def comma_def js_def)

text \<open>
  Claim C4. A query whose \<open>years_back\<close> is negative is rejected by the ranking service
  with its descriptive input error, whatever the selector holds: no candidate is selected,
  and no run returns a ranking. The search form does not clamp the number either: a
  years-back field that converts to a negative number is sent as that number, and the
  query built from it is rejected.
\<close>

theorem negative_rejected:
  "(is_negative (years_back q) \<longrightarrow>
      ranking_service w sel sig q = Inl rejection
      \<and> (\<forall>r. ranking_run w sel sig q r \<longrightarrow> r = Inl rejection))
   \<and> (trim (yearsBack s) \<noteq> [] \<and> is_negative (Number p (trim (yearsBack s))) \<longrightarrow>
        years_back (run_payload p s) = Number p (trim (yearsBack s))
        \<and> ranking_service w sel sig (run_payload p s) = Inl rejection)"
proof -
  have a: "ranking_service w sel sig q = Inl rejection \<and> (\<forall>r. ranking_run w sel sig q r \<longrightarrow> r = Inl rejection)"
    if "is_negative (years_back q)" for q
  proof -
    from that have nv: "\<not> valid_years_back (years_back q)" by (rule negative_invalid)
    then have "ranking_service w sel sig q = Inl rejection" by (simp add: ranking_service_def)
    moreover have "r = Inl rejection" if "ranking_run w sel sig q r" for r
      using that nv by (cases rule: ranking_run.cases) simp_all
    ultimately show ?thesis by blast
  qed
  have b: "years_back (run_payload p s) = Number p (trim (yearsBack s))" if "trim (yearsBack s) \<noteq> []"
    using that by (simp add: run_payload_def)
  show ?thesis using a[of q] a[of "run_payload p s"] b by simp
qed

text \<open>
  The theorem at the years-back field \<open> -5 \<close>.
\<close>

theorem negative_rejected_witness:
  "is_negative (Number (sample_platform unreachable :: unit platform) (trim (js '' -5 '')))
   \<and> years_back (run_payload (sample_platform unreachable :: unit platform)
        (initial_Home\<lparr>yearsBack := js '' -5 ''\<rparr>)) = Num (- 5)
   \<and> ranking_service sample_weights sample_selector sample_signals
        (run_payload (sample_platform unreachable :: unit platform)
           (initial_Home\<lparr>yearsBack := js '' -5 ''\<rparr>)) = Inl rejection"
proof -
  let ?p = "sample_platform unreachable :: unit platform"
  let ?s = "initial_Home\<lparr>yearsBack := js '' -5 ''\<rparr>"
  have t: "trim (yearsBack ?s) = js ''-5''"
    by (simp add: trim_def is_whitespace_def js_def)
  have n: "Number ?p (js ''-5'') = Num (- 5)"
    by (simp add: sample_platform_def sample_Number_def js_def)
  have t': "trim (js '' -5 '') = js ''-5''"
    by (simp add: trim_def is_whitespace_def js_def)
  have j: "js ''-5'' \<noteq> []" by (simp add: js_def)
  show ?thesis
    using negative_rejected[of sample_query sample_weights sample_selector sample_signals ?s ?p] t t' n j
    by (simp add: is_negative_def)
qed

text \<open>
  Claim C5. When the years-back field trims to the empty string, the query built by
  \<open>run\<close> has \<open>years_back = 3\<close>.
\<close>

theorem years_back_default:
  "trim (yearsBack s) = [] \<Longrightarrow> years_back (run_payload p s) = Num 3"
  by (simp add: run_payload_def)

text \<open>
  The theorem at a years-back field of two spaces.
\<close>

theorem years_back_default_witness:
  "trim (yearsBack (initial_Home\<lparr>yearsBack := js ''  ''\<rparr>)) = []
   \<and> years_back (run_payload (sample_platform unreachable :: unit platform) (initial_Home\<lparr>yearsBack := js ''  ''\<rparr>)) = Num 3"
proof -
  have h: "trim (yearsBack (initial_Home\<lparr>yearsBack := js ''  ''\<rparr>)) = []"
    by (simp add: trim_def is_whitespace_def js_def)
  show ?thesis
    using h years_back_default[OF h, of "sample_platform unreachable :: unit platform"] by simp
qed



text \<open>
  Claim C7, as the code has it. When the detail request succeeds, \<open>getResearcher\<close>
  returns the parsed detail as it is and the page shows it: the committee history in the
  order received, cut to its first 20 entries (all of it when it has at most 20), each
  entry with its series, year and role; every recent publication, in the order received;
  and the profile URL, when it is not empty, as the link's target.
\<close>

theorem detail_passed_through:
  assumes "fetch p (request_url p (js ''/researcher/'' @ ToString p (Number p params_id)))
             (request_init \<lparr>http_method = Some (js ''GET''), body = None, headers = None\<rparr>) = Inr res"
    and "ok res" and "json res = Inr d"
  shows "getResearcher p (Number p params_id) = Inr d
     \<and> ResearcherPage (load_researcher p params_id True s) = Detail (render_detail d)
     \<and> v_pc_rows (render_detail d) = map pc_row (take 20 (pc_history d))
     \<and> (length (pc_history d) \<le> 20 \<longrightarrow> v_pc_rows (render_detail d) = map pc_row (pc_history d))
     \<and> inj pc_row
     \<and> v_pub_rows (render_detail d) = map pub_row (recent_publications d)
     \<and> (\<forall>u. person_profile_url d = Some u \<and> u \<noteq> [] \<longrightarrow> v_profile_href (render_detail d) = Some u)"
proof -
  have g: "getResearcher p (Number p params_id) = Inr d"
    using assms by (rule getResearcher_ok)
  have v: "ResearcherPage (load_researcher p params_id True s) = Detail (render_detail d)"
    using g by (simp add: load_researcher_def ResearcherPage_def Let_def)
  have r: "v_pc_rows (render_detail d) = map pc_row (take 20 (pc_history d))"
    "v_pub_rows (render_detail d) = map pub_row (recent_publications d)"
    by (simp_all add: render_detail_def)
  have u: "v_profile_href (render_detail d) = Some u" if "person_profile_url d = Some u" "u \<noteq> []" for u
    using that by (simp add: render_detail_def)
  show ?thesis using g v r u inj_pc_row by simp
qed

text \<open>
  The theorem at a researcher with two committee memberships.
\<close>

theorem detail_passed_through_witness:
  "getResearcher (sample_platform (answering (detail_with 2))) (Num 7) = Inr (detail_with 2)
   \<and> ResearcherPage (load_researcher (sample_platform (answering (detail_with 2))) (js ''7'') True
        initial_ResearcherPage) = Detail (render_detail (detail_with 2))
   \<and> v_pc_rows (render_detail (detail_with 2))
       = [(js ''ICSE'', 2000, js ''PC member''), (js ''ICSE'', 2001, js ''PC member'')]
   \<and> v_profile_href (render_detail (detail_with 2)) = Some (js ''https://example.org/carol'')"
proof -
  let ?p = "sample_platform (answering (detail_with 2))"
  let ?res = "\<lparr>ok = True, status = 200, body_text = js ''{}'', json = Inr (detail_with 2)\<rparr>"
  have n: "Number ?p (js ''7'') = Num 7"
    by (simp add: sample_platform_def sample_Number_def js_def)
  have f: "fetch ?p (request_url ?p (js ''/researcher/'' @ ToString ?p (Number ?p (js ''7''))))
             (request_init \<lparr>http_method = Some (js ''GET''), body = None, headers = None\<rparr>) = Inr ?res"
    by (simp add: sample_platform_def answering_def)
  have o: "ok ?res" and j: "json ?res = Inr (detail_with 2)" by simp_all
  have h: "pc_history (detail_with 2) = [membership 0, membership 1]"
    by (simp add: detail_with_def upt_rec)
  have u: "person_profile_url (detail_with 2) = Some (js ''https://example.org/carol'')"
    by (simp add: detail_with_def)
  show ?thesis
    using detail_passed_through[OF f o j, of initial_ResearcherPage] n h u js_nonempty
    by (simp add: pc_row_def membership_def)
qed

text \<open>
  Claim C7 as stated fails: of a researcher with 21 committee memberships the page shows
  20.
\<close>

theorem history_truncated:
  "ResearcherPage (load_researcher (sample_platform (answering (detail_with 21))) (js ''7'') True
        initial_ResearcherPage) = Detail (render_detail (detail_with 21))
   \<and> length (pc_history (detail_with 21)) = 21
   \<and> length (v_pc_rows (render_detail (detail_with 21))) = 20
   \<and> v_pc_rows (render_detail (detail_with 21)) \<noteq> map pc_row (pc_history (detail_with 21))"
proof -
  let ?p = "sample_platform (answering (detail_with 21))"
  have g: "getResearcher ?p (Number ?p (js ''7'')) = Inr (detail_with 21)"
    by (simp add: getResearcher_def request_def request_result_def sample_platform_def answering_def)
  have v: "ResearcherPage (load_researcher ?p (js ''7'') True initial_ResearcherPage)
      = Detail (render_detail (detail_with 21))"
    using g by (simp add: load_researcher_def ResearcherPage_def Let_def initial_ResearcherPage_def)
  have l: "length (pc_history (detail_with 21)) = 21" by (simp add: detail_with_def)
  have k: "length (v_pc_rows (render_detail (detail_with 21))) = 20"
    by (simp add: render_detail_def detail_with_def)
  have ne: "v_pc_rows (render_detail (detail_with 21)) \<noteq> map pc_row (pc_history (detail_with 21))"
  proof
    assume "v_pc_rows (render_detail (detail_with 21)) = map pc_row (pc_history (detail_with 21))"
    then have "length (v_pc_rows (render_detail (detail_with 21)))
        = length (map pc_row (pc_history (detail_with 21)))"
      by simp
    with k l show False by simp
  qed
  from v l k ne show ?thesis by simp
qed

text \<open>
  Claim C8. \<open>clamp01 x\<close> is \<open>max 0 (min 1 x)\<close> and lies between 0 and 1; the bar of
  \<open>Progress\<close> is that fraction of the full width, and is empty for every \<open>x \<le> 0\<close>. In
  the breakdown dialog the bar of each of the eight rows is the clamped component of that
  row, in the order of the table: between 0 and 100 percent, and empty when the component
  is not positive; the number printed beside it is \<open>toFixed(3)\<close> of the component
  itself. In particular a semantic score in \<open>[-1, 0)\<close> gets an empty bar beside its own
  value, minus sign first.
\<close>

theorem bar_is_clamped:
  "clamp01 x = max 0 (min 1 x) \<and> 0 \<le> clamp01 x \<and> clamp01 x \<le> 1
   \<and> Progress x = clamp01 x * 100
   \<and> (x \<le> 0 \<longrightarrow> Progress x = 0)
   \<and> map row_bar_percent (ScoreBreakdownView p b)
       = map (\<lambda>x. max 0 (min 1 x) * 100)
           [topic_sim b, semantic_score b, pub_recency_score b, pc_recency_score b,
            impact_score b, pagerank_score b, experience_score b, newcomer_score b]
   \<and> map row_value (ScoreBreakdownView p b)
       = map (toFixed p 3)
           [topic_sim b, semantic_score b, pub_recency_score b, pc_recency_score b,
            impact_score b, pagerank_score b, experience_score b, newcomer_score b]
   \<and> (\<forall>i < 8.
        0 \<le> row_bar_percent (ScoreBreakdownView p b ! i)
        \<and> row_bar_percent (ScoreBreakdownView p b ! i) \<le> 100
        \<and> ([topic_sim b, semantic_score b, pub_recency_score b, pc_recency_score b,
             impact_score b, pagerank_score b, experience_score b, newcomer_score b] ! i \<le> 0
            \<longrightarrow> row_bar_percent (ScoreBreakdownView p b ! i) = 0))
   \<and> (- 1 \<le> semantic_score b \<and> semantic_score b < 0 \<longrightarrow>
        row_label (ScoreBreakdownView p b ! 1) = js ''Semantic (embeddings)''
        \<and> row_bar_percent (ScoreBreakdownView p b ! 1) = 0
        \<and> row_value (ScoreBreakdownView p b ! 1) = toFixed p 3 (semantic_score b)
        \<and> hd (row_value (ScoreBreakdownView p b ! 1)) = 0x002D)"
proof -
  let ?cs = "[topic_sim b, semantic_score b, pub_recency_score b, pc_recency_score b,
            impact_score b, pagerank_score b, experience_score b, newcomer_score b]"
  have c: "clamp01 x = max 0 (min 1 x) \<and> 0 \<le> clamp01 x \<and> clamp01 x \<le> 1" for x
    by (simp add: clamp01_def)
  have pr: "Progress x = clamp01 x * 100" for x
    by (simp add: Progress_def)
  have z: "Progress x = 0" if "x \<le> 0" for x
    using that by (simp add: Progress_def clamp01_def)
  have bars: "map row_bar_percent (ScoreBreakdownView p b) = map (\<lambda>x. max 0 (min 1 x) * 100) ?cs"
    by (simp add: ScoreBreakdownView_def rows_def Progress_def clamp01_def)
  have vals: "map row_value (ScoreBreakdownView p b) = map (toFixed p 3) ?cs"
    by (simp add: ScoreBreakdownView_def rows_def)
  have len: "length (ScoreBreakdownView p b) = 8"
    by (simp add: ScoreBreakdownView_def rows_def)
  have nth: "row_bar_percent (ScoreBreakdownView p b ! i) = max 0 (min 1 (?cs ! i)) * 100"
    if "i < 8" for i
  proof -
    have "row_bar_percent (ScoreBreakdownView p b ! i) = map row_bar_percent (ScoreBreakdownView p b) ! i"
      using that len by simp
    also have "\<dots> = map (\<lambda>x. max 0 (min 1 x) * 100) ?cs ! i" by (simp only: bars)
    also have "\<dots> = max 0 (min 1 (?cs ! i)) * 100" using that by (intro nth_map) simp
    finally show ?thesis .
  qed
  have all: "\<forall>i < 8.
        0 \<le> row_bar_percent (ScoreBreakdownView p b ! i)
        \<and> row_bar_percent (ScoreBreakdownView p b ! i) \<le> 100
        \<and> (?cs ! i \<le> 0 \<longrightarrow> row_bar_percent (ScoreBreakdownView p b ! i) = 0)"
  proof (intro allI impI)
    fix i :: nat assume "i < 8"
    then have e: "row_bar_percent (ScoreBreakdownView p b ! i) = max 0 (min 1 (?cs ! i)) * 100"
      by (rule nth)
    show "0 \<le> row_bar_percent (ScoreBreakdownView p b ! i)
        \<and> row_bar_percent (ScoreBreakdownView p b ! i) \<le> 100
        \<and> (?cs ! i \<le> 0 \<longrightarrow> row_bar_percent (ScoreBreakdownView p b ! i) = 0)"
      unfolding e by (auto simp: max_def min_def)
  qed
  have r: "ScoreBreakdownView p b ! 1 =
      \<lparr>row_label = js ''Semantic (embeddings)'',
       row_note = Some (js ''If cosine is used, negatives may appear as 0 in bars.''),
       row_value = toFixed p 3 (semantic_score b),
       row_bar_percent = Progress (semantic_score b)\<rparr>"
    by (simp add: ScoreBreakdownView_def rows_def)
  have m: "hd (toFixed p 3 y) = 0x002D" if "y < 0" for y
    using that by (simp add: toFixed_def Let_def js_def)
  have sem: "- 1 \<le> semantic_score b \<and> semantic_score b < 0 \<longrightarrow>
        row_label (ScoreBreakdownView p b ! 1) = js ''Semantic (embeddings)''
        \<and> row_bar_percent (ScoreBreakdownView p b ! 1) = 0
        \<and> row_value (ScoreBreakdownView p b ! 1) = toFixed p 3 (semantic_score b)
        \<and> hd (row_value (ScoreBreakdownView p b ! 1)) = 0x002D"
    unfolding r using z[of "semantic_score b"] m[of "semantic_score b"] by simp
  have zx: "x \<le> 0 \<longrightarrow> Progress x = 0" using z by blast
  show ?thesis
    using c[of x] pr[of x] zx bars vals all sem by (intro conjI) blast+
qed

text \<open>
  The theorem at the sample breakdown: the bars are 100, 0, 50, 0, 100, 0, 0 and 0
  percent, and the semantic score \<open>-0.5\<close> has an empty bar beside the text \<open>-0.500\<close>.
\<close>

theorem bar_is_clamped_witness:
  "clamp01 (- (1 / 2)) = 0
   \<and> map row_bar_percent
        (ScoreBreakdownView (sample_platform unreachable :: unit platform) sample_breakdown)
       = [100, 0, 50, 0, 100, 0, 0, 0]
   \<and> row_bar_percent
        (ScoreBreakdownView (sample_platform unreachable :: unit platform) sample_breakdown ! 1) = 0
   \<and> row_value
        (ScoreBreakdownView (sample_platform unreachable :: unit platform) sample_breakdown ! 1)
       = js ''-0.500''"
proof -
  let ?p = "sample_platform unreachable :: unit platform"
  have s: "semantic_score sample_breakdown = - (1 / 2)" by (simp add: sample_breakdown_def)
  have t: "toFixed ?p 3 (- (1 / 2)) = js ''-0.500''"
    by (simp add: toFixed_def Let_def js_def)
  have f: "topic_sim sample_breakdown = 1" "pub_recency_score sample_breakdown = 1 / 2"
    "pc_recency_score sample_breakdown = 0" "impact_score sample_breakdown = 1"
    "pagerank_score sample_breakdown = 0" "experience_score sample_breakdown = 0"
    "newcomer_score sample_breakdown = 0"
    by (simp_all add: sample_breakdown_def)
  show ?thesis
    using bar_is_clamped[of "- (1 / 2)" ?p sample_breakdown] s t f
    by simp
qed

text \<open>
  Claim C9. When \<open>recommend\<close> rejects, \<open>run\<close> ends with no items and with the error
  state set to the failure's text: its message, when it has one (otherwise the string
  form of the thrown value, as the \<open>catch\<close> block computes it). When \<open>recommend\<close>
  returns, the items are the results and the error state is empty. In both cases
  \<open>loading\<close> is false at the end.
\<close>

theorem run_settles:
  "(recommend p (run_payload p s) = Inl e \<longrightarrow>
      items (run p s) = [] \<and> error (run p s) = Some (catch_text e)
      \<and> (message e \<noteq> [] \<longrightarrow> error (run p s) = Some (message e)))
   \<and> (recommend p (run_payload p s) = Inr res \<longrightarrow>
      items (run p s) = results res \<and> error (run p s) = None)
   \<and> loading (run p s) = False"
proof -
  have l: "loading (run p s) = False"
    by (cases "recommend p (run_payload p s)") (simp_all add: run_def Let_def)
  have a: "items (run p s) = [] \<and> error (run p s) = Some (catch_text e)"
    if "recommend p (run_payload p s) = Inl e"
    using that by (simp add: run_def Let_def)
  have b: "items (run p s) = results res \<and> error (run p s) = None"
    if "recommend p (run_payload p s) = Inr res"
    using that by (simp add: run_def Let_def)
  have c: "catch_text e = message e" if "message e \<noteq> []"
    using that by (simp add: catch_text_def)
  show ?thesis using l a b c by simp
qed

text \<open>
  The theorem at a server that answers 503 \<open>Service Unavailable\<close>.
\<close>

theorem run_settles_witness:
  "recommend (sample_platform refusing)
      (run_payload (sample_platform refusing :: RecommendationResponse platform) initial_Home)
     = Inl (new_Error (js ''API 503: Service Unavailable''))
   \<and> items (run (sample_platform refusing) initial_Home) = []
   \<and> error (run (sample_platform refusing) initial_Home) = Some (js ''API 503: Service Unavailable'')
   \<and> loading (run (sample_platform refusing) initial_Home) = False"
proof -
  let ?p = "sample_platform refusing :: RecommendationResponse platform"
  have d: "js ''API '' @ decimal 503 @ js '': '' @ js ''Service Unavailable'' = js ''API 503: Service Unavailable''"
    by (simp add: js_def)
  have r: "recommend ?p (run_payload ?p initial_Home) = Inl (new_Error (js ''API 503: Service Unavailable''))"
    using d by (simp add: recommend_def request_def request_result_def sample_platform_def refusing_def)
  have m: "message (new_Error (js ''API 503: Service Unavailable'')) = js ''API 503: Service Unavailable''"
    by (simp add: new_Error_def)
  have ne: "js ''API 503: Service Unavailable'' \<noteq> []" by (simp add: js_def)
  show ?thesis
    using run_settles[of ?p initial_Home "new_Error (js ''API 503: Service Unavailable'')"] r m ne
    by (simp add: catch_text_def)
qed

text \<open>
  Claim C10. \<open>getResearcher\<close> calls \<open>fetch\<close> once, with the method \<open>GET\<close> and the URL
  \<open>API_BASE\<close>, \<open>/researcher/\<close> and the identifier; this is not the URL of the route
  \<open>/researchers/{researcher_id}\<close> of the README.
\<close>

theorem getResearcher_path:
  "getResearcher p i =
     (case fetch p (API_BASE p @ js ''/researcher/'' @ ToString p i)
             \<lparr>http_method = Some (js ''GET''), body = None,
              headers = Some [(js ''Content-Type'', js ''application/json'')]\<rparr> of
        Inl e \<Rightarrow> Inl e
      | Inr res \<Rightarrow> request_result res)
   \<and> API_BASE p @ js ''/researcher/'' @ ToString p i
       \<noteq> API_BASE p @ js ''/researchers/'' @ ToString p i"
  by (simp add: getResearcher_def request_def request_url_def request_init_def
      spread_headers_def js_def)

end
